theory Spec2Isabelle
  imports
    Complex_Main
    "HOL-Library.Finite_Map"
    "HOL-Library.List_Lexorder"
    "HOL-Library.Char_ord"
begin

section \<open>Python values and exceptions\<close>

text \<open>
  The scalar values a JSON document holds once \<^verbatim>\<open>json.load\<close> has read it:
  \<^verbatim>\<open>null\<close> is Python's \<^verbatim>\<open>None\<close>, a float is taken by its exact (finite) value.
\<close>

datatype jvalue = JNull | JBool bool | JInt int | JFloat rat | JStr string

text \<open>
  Python's \<^verbatim>\<open>==\<close> on these values: \<^verbatim>\<open>bool\<close>, \<^verbatim>\<open>int\<close> and \<^verbatim>\<open>float\<close> compare by
  numeric value (\<^verbatim>\<open>True == 1 == 1.0\<close>), \<^verbatim>\<open>None\<close> equals only \<^verbatim>\<open>None\<close>, a string
  equals only the same string.
\<close>

fun num_of :: "jvalue \<Rightarrow> rat option" where
  "num_of (JBool b) = Some (if b then 1 else 0)"
| "num_of (JInt i) = Some (of_int i)"
| "num_of (JFloat r) = Some r"
| "num_of JNull = None"
| "num_of (JStr s) = None"

definition py_eq :: "jvalue \<Rightarrow> jvalue \<Rightarrow> bool" where
  "py_eq a b =
     (case (num_of a, num_of b) of
        (Some x, Some y) \<Rightarrow> x = y
      | (None, None) \<Rightarrow> a = b
      | (Some x, None) \<Rightarrow> False
      | (None, Some y) \<Rightarrow> False)"

definition py_ne :: "jvalue \<Rightarrow> jvalue \<Rightarrow> bool" where
  "py_ne a b = (\<not> py_eq a b)"

datatype error =
    KeyError string
  | TypeError
  | FileNotFoundError string
  | IsADirectoryError string
  | PermissionError string
  | UnicodeDecodeError
  | Failed_to_parse string
  | Failed_to_write string
  | EngineError string

section \<open>Snapshots\<close>

text \<open>
  A file record as the baseline file holds it: a dict from field names to values
  (\<^verbatim>\<open>path\<close>, \<^verbatim>\<open>hash\<close>, \<^verbatim>\<open>size\<close>, \<^verbatim>\<open>mtime\<close>). A snapshot is a dict from paths to
  file records. Dicts are finite maps.
\<close>

type_synonym pydict = "(string, jvalue) fmap"
type_synonym snapshot = "(string, pydict) fmap"

text \<open>\<^verbatim>\<open>d[k]\<close> raises \<^verbatim>\<open>KeyError\<close> on a missing key; \<^verbatim>\<open>d.get(k)\<close> yields \<^verbatim>\<open>None\<close>.\<close>

definition subscript :: "snapshot \<Rightarrow> string \<Rightarrow> error + pydict" where
  "subscript d k = (case fmlookup d k of None \<Rightarrow> Inl (KeyError k) | Some v \<Rightarrow> Inr v)"

definition dict_get :: "pydict \<Rightarrow> string \<Rightarrow> jvalue" where
  "dict_get d k = (case fmlookup d k of None \<Rightarrow> JNull | Some v \<Rightarrow> v)"

section \<open>Comparator (visualizer.py, visualize\_integrity\_check)\<close>

text \<open>
  \<^verbatim>\<open>
  old_keys = set(old_baseline.keys())
  new_keys = set(new_baseline.keys())
  created = sorted(new_keys - old_keys)
  deleted = sorted(old_keys - new_keys)
  common_keys = old_keys & new_keys
  modified = sorted([k for k in common_keys
                     if old_baseline[k].get('hash') != new_baseline[k].get('hash')])
  \<close>
  The three lists are what the function then renders.
\<close>

record delta =
  modified :: "string list"
  created :: "string list"
  deleted :: "string list"

text \<open>The list comprehension over the common keys, in the order it is given them.\<close>

fun modified_keys :: "snapshot \<Rightarrow> snapshot \<Rightarrow> string list \<Rightarrow> error + string list" where
  "modified_keys old_baseline new_baseline [] = Inr []"
| "modified_keys old_baseline new_baseline (k # ks) =
     (case subscript old_baseline k of
        Inl e \<Rightarrow> Inl e
      | Inr a \<Rightarrow>
          (case subscript new_baseline k of
             Inl e \<Rightarrow> Inl e
           | Inr b \<Rightarrow>
               (case modified_keys old_baseline new_baseline ks of
                  Inl e \<Rightarrow> Inl e
                | Inr r \<Rightarrow>
                    Inr (if py_ne (dict_get a ''hash'') (dict_get b ''hash'')
                         then k # r else r))))"

text \<open>
  Python iterates the set \<^verbatim>\<open>common_keys\<close> in an order of its own; the model takes the
  sorted one. The result is sorted afterwards, so the order does not show.
\<close>

definition visualize_integrity_check :: "snapshot \<Rightarrow> snapshot \<Rightarrow> error + delta" where
  "visualize_integrity_check old_baseline new_baseline =
     (let old_keys = fmdom' old_baseline;
          new_keys = fmdom' new_baseline;
          created = sorted_list_of_set (new_keys - old_keys);
          deleted = sorted_list_of_set (old_keys - new_keys);
          common_keys = old_keys \<inter> new_keys
      in case modified_keys old_baseline new_baseline (sorted_list_of_set common_keys) of
           Inl e \<Rightarrow> Inl e
         | Inr ms \<Rightarrow> Inr \<lparr>modified = sort ms, created = created, deleted = deleted\<rparr>)"

text \<open>
  The spec's words for the comparator: the content hash a snapshot records for a path, and
  the implicit fourth class, a path present in both snapshots with equal hashes.
\<close>

definition content_hash :: "snapshot \<Rightarrow> string \<Rightarrow> jvalue" where
  "content_hash s p = (case fmlookup s p of None \<Rightarrow> JNull | Some r \<Rightarrow> dict_get r ''hash'')"

definition unchanged :: "snapshot \<Rightarrow> snapshot \<Rightarrow> string set" where
  "unchanged old new =
     {p. p \<in> fmdom' old \<and> p \<in> fmdom' new \<and> py_eq (content_hash old p) (content_hash new p)}"

section \<open>Live aggregator (live\_monitor.py, AegisFileWatcher)\<close>

text \<open>
  An entry of the event log is the dict \<^verbatim>\<open>log_event\<close> appends; its keys \<^verbatim>\<open>time\<close>,
  \<^verbatim>\<open>type\<close>, \<^verbatim>\<open>file\<close> and \<^verbatim>\<open>path\<close> are the fields below.
\<close>

record log_entry =
  ev_time :: string
  ev_type :: string
  ev_file :: string
  ev_path :: string

text \<open>The handler object: \<^verbatim>\<open>self.events\<close> and \<^verbatim>\<open>self.max_events\<close>.\<close>

record watcher =
  events :: "log_entry list"
  max_events :: nat

definition init_watcher :: watcher where
  "init_watcher = \<lparr>events = [], max_events = 50\<rparr>"

text \<open>
  What the handler reads of a watchdog event, and what the environment hands it while it
  runs: the reading of the clock (\<^verbatim>\<open>datetime.now().strftime("%H:%M:%S")\<close>) and pathlib's
  \<^verbatim>\<open>Path(filepath).name\<close>, a parameter \<open>name_of\<close> of the model.
\<close>

record fs_event =
  is_directory :: bool
  src_path :: string

text \<open>
  \<^verbatim>\<open>
  def log_event(self, event_type, filepath):
      timestamp = datetime.now().strftime("%H:%M:%S")
      self.events.append({'time': timestamp, 'type': event_type,
                          'file': Path(filepath).name, 'path': filepath})
      if len(self.events) > self.max_events:
          self.events.pop(0)
  \<close>
  \<^verbatim>\<open>pop(0)\<close> is taken on a list that has just been appended to, so it never raises.
\<close>

definition log_event ::
  "(string \<Rightarrow> string) \<Rightarrow> string \<Rightarrow> string \<Rightarrow> string \<Rightarrow> watcher \<Rightarrow> watcher" where
  "log_event name_of timestamp event_type filepath self =
     (let appended = events self @
            [\<lparr>ev_time = timestamp, ev_type = event_type,
              ev_file = name_of filepath, ev_path = filepath\<rparr>]
      in if length appended > max_events self
         then self\<lparr>events := tl appended\<rparr>
         else self\<lparr>events := appended\<rparr>)"

definition on_modified ::
  "(string \<Rightarrow> string) \<Rightarrow> string \<Rightarrow> fs_event \<Rightarrow> watcher \<Rightarrow> watcher" where
  "on_modified name_of timestamp event self =
     (if \<not> is_directory event
      then log_event name_of timestamp ''MODIFIED'' (src_path event) self else self)"

definition on_created ::
  "(string \<Rightarrow> string) \<Rightarrow> string \<Rightarrow> fs_event \<Rightarrow> watcher \<Rightarrow> watcher" where
  "on_created name_of timestamp event self =
     (if \<not> is_directory event
      then log_event name_of timestamp ''CREATED'' (src_path event) self else self)"

definition on_deleted ::
  "(string \<Rightarrow> string) \<Rightarrow> string \<Rightarrow> fs_event \<Rightarrow> watcher \<Rightarrow> watcher" where
  "on_deleted name_of timestamp event self =
     (if \<not> is_directory event
      then log_event name_of timestamp ''DELETED'' (src_path event) self else self)"

text \<open>
  A raw notification: the kind watchdog dispatches on, the event, and the clock reading
  at the moment the handler runs. Of watchdog's kinds only the three the class overrides
  are modelled; the others reach handlers the class inherits, which do nothing.
\<close>

datatype event_kind = Modified | Created | Deleted

record notification =
  kind :: event_kind
  event :: fs_event
  clock :: string

fun kind_name :: "event_kind \<Rightarrow> string" where
  "kind_name Modified = ''MODIFIED''"
| "kind_name Created = ''CREATED''"
| "kind_name Deleted = ''DELETED''"

definition dispatch :: "(string \<Rightarrow> string) \<Rightarrow> notification \<Rightarrow> watcher \<Rightarrow> watcher" where
  "dispatch name_of n self =
     (case kind n of
        Modified \<Rightarrow> on_modified name_of (clock n) (event n) self
      | Created \<Rightarrow> on_created name_of (clock n) (event n) self
      | Deleted \<Rightarrow> on_deleted name_of (clock n) (event n) self)"

text \<open>The observer thread delivers the notifications one after the other.\<close>

fun deliver :: "(string \<Rightarrow> string) \<Rightarrow> notification list \<Rightarrow> watcher \<Rightarrow> watcher" where
  "deliver name_of [] self = self"
| "deliver name_of (n # ns) self = deliver name_of ns (dispatch name_of n self)"

text \<open>The entry a regular-file notification is logged as.\<close>

definition entry_of :: "(string \<Rightarrow> string) \<Rightarrow> notification \<Rightarrow> log_entry" where
  "entry_of name_of n =
     \<lparr>ev_time = clock n, ev_type = kind_name (kind n),
      ev_file = name_of (src_path (event n)), ev_path = src_path (event n)\<rparr>"

definition is_file_notification :: "notification \<Rightarrow> bool" where
  "is_file_notification n = (\<not> is_directory (event n))"

section \<open>Files, console and the baseline store (agent.py)\<close>


text \<open>
  The dict of a file record, as \<^verbatim>\<open>visualizer.py\<close> writes it out:
  \<^verbatim>\<open>{"path": filepath, "hash": hex_hash, "size": size, "mtime": mtime}\<close>;
  \<^verbatim>\<open>dataclasses.asdict\<close> gives the same dict for an entry.
\<close>

definition file_record :: "string \<Rightarrow> string \<Rightarrow> int \<Rightarrow> rat \<Rightarrow> pydict" where
  "file_record filepath hex_hash st_size st_mtime =
     fmap_of_list [(''path'', JStr filepath), (''hash'', JStr hex_hash),
                   (''size'', JInt st_size), (''mtime'', JFloat st_mtime)]"


text \<open>
  The results dict of a comparison, from \<^verbatim>\<open>MODIFIED\<close>, \<^verbatim>\<open>CREATED\<close> and \<^verbatim>\<open>DELETED\<close>
  to lists of paths.
\<close>

type_synonym results = "(string, string list) fmap"

text \<open>
  What \<^verbatim>\<open>json.load\<close> can return, as far as the code looks at it: a dict of file
  records, a results dict, a list or a scalar.
\<close>

datatype document =
    DictDoc snapshot
  | ResultsDoc results
  | ListDoc "jvalue list"
  | ScalarDoc jvalue

text \<open>
  A file holds a JSON text, taken by the document \<^verbatim>\<open>json.load\<close> reads from it
  (\<^verbatim>\<open>json.dump\<close> of a document writes such a text), or a text \<^verbatim>\<open>json.load\<close>
  rejects with the message given, or bytes that are no text at all.
\<close>

datatype content = Json document | Invalid_json string | Invalid_text

text \<open>
  What a path names: nothing (and a file can be created there), nothing in a directory
  that does not exist, a directory, or a regular file, which the process may be denied.
\<close>

datatype node = Absent | No_parent | Directory | Protected content | Regular content

datatype message =
    Loaded_baseline string
  | Files_tracked nat
  | Corrupted_baseline string
  | Baseline_saved string
  | Write_failed string
  | Check_mode string string
  | Baseline_not_found string
  | Run_init_first
  | Discovery_complete nat
  | Creating_snapshot
  | Snapshot_complete nat
  | Analyzing
  | System_secure
  | Security_alert nat
  | Files_table string "string list"
  | Change_summary nat nat nat nat
  | Report_saved string
  | Fatal_error error
  | Check_hint
  | Error_processing string error
  | Scan_summary nat int string

text \<open>The calls to the engines, in the order they are made.\<close>

datatype call = Discovery string | Hashing "string list" | Comparison

record world =
  fs :: "string \<Rightarrow> node"
  console :: "message list"
  calls :: "call list"

definition print :: "message list \<Rightarrow> world \<Rightarrow> world" where
  "print ms w = w\<lparr>console := console w @ ms\<rparr>"

text \<open>\<^verbatim>\<open>Path(p).exists()\<close>, \<^verbatim>\<open>open(p, 'r')\<close> with the read, \<^verbatim>\<open>open(p, 'w')\<close> with the dump.\<close>

definition path_exists :: "(string \<Rightarrow> node) \<Rightarrow> string \<Rightarrow> bool" where
  "path_exists f p = (case f p of Absent \<Rightarrow> False | No_parent \<Rightarrow> False | _ \<Rightarrow> True)"

definition open_read :: "(string \<Rightarrow> node) \<Rightarrow> string \<Rightarrow> error + content" where
  "open_read f p =
     (case f p of
        Absent \<Rightarrow> Inl (FileNotFoundError p)
      | No_parent \<Rightarrow> Inl (FileNotFoundError p)
      | Directory \<Rightarrow> Inl (IsADirectoryError p)
      | Protected c \<Rightarrow> Inl (PermissionError p)
      | Regular c \<Rightarrow> Inr c)"


text \<open>\<^verbatim>\<open>len(data)\<close> and the truth value of a document (\<^verbatim>\<open>not old_baseline\<close>).\<close>

fun py_len :: "document \<Rightarrow> error + nat" where
  "py_len (DictDoc s) = Inr (card (fmdom' s))"
| "py_len (ResultsDoc r) = Inr (card (fmdom' r))"
| "py_len (ListDoc xs) = Inr (length xs)"
| "py_len (ScalarDoc (JStr s)) = Inr (length s)"
| "py_len (ScalarDoc v) = Inl TypeError"



text \<open>
  \<^verbatim>\<open>
  def load_baseline(filepath):
      try:
          if not Path(filepath).exists():
              return {}
          with open(filepath, 'r') as f:
              data = json.load(f)
          console.print("Loaded baseline from ...")
          console.print(f"Files tracked: {len(data):,}")
          return data
      except FileNotFoundError:
          return {}
      except json.JSONDecodeError as e:
          console.print("Corrupted baseline file")
          raise Exception(f"Failed to parse baseline file {filepath}: {e}")
  \<close>
  Any other exception (a directory, a denied file, bytes that are no text, a document
  without a length) leaves the function as it is.
\<close>

definition load_baseline :: "string \<Rightarrow> world \<Rightarrow> (error + document) \<times> world" where
  "load_baseline filepath w =
     (if \<not> path_exists (fs w) filepath then (Inr (DictDoc fmempty), w)
      else case open_read (fs w) filepath of
             Inl (FileNotFoundError p) \<Rightarrow> (Inr (DictDoc fmempty), w)
           | Inl e \<Rightarrow> (Inl e, w)
           | Inr Invalid_text \<Rightarrow> (Inl UnicodeDecodeError, w)
           | Inr (Invalid_json m) \<Rightarrow>
               (Inl (Failed_to_parse filepath), print [Corrupted_baseline m] w)
           | Inr (Json data) \<Rightarrow>
               (case py_len data of
                  Inl e \<Rightarrow> (Inl e, print [Loaded_baseline filepath] w)
                | Inr n \<Rightarrow> (Inr data, print [Loaded_baseline filepath, Files_tracked n] w)))"

section \<open>Snapshot building (visualizer.py, animate\_hashing\_process)\<close>

text \<open>
  The \<^verbatim>\<open>blake3\<close> library is a parameter: a fresh hasher, \<^verbatim>\<open>update\<close> and
  \<^verbatim>\<open>hexdigest\<close>. Bytes are characters.
\<close>

record 'h hasher =
  blake3 :: 'h
  update :: "'h \<Rightarrow> string \<Rightarrow> 'h"
  hexdigest :: "'h \<Rightarrow> string"


text \<open>
  \<^verbatim>\<open>
  while chunk := f.read(65536):
      hasher.update(chunk)
  \<close>
\<close>

function hash_chunks :: "'h hasher \<Rightarrow> 'h \<Rightarrow> string \<Rightarrow> 'h" where
  "hash_chunks L h bytes =
     (let chunk = take 65536 bytes
      in if chunk = [] then h else hash_chunks L (update L h chunk) (drop 65536 bytes))"
  by pat_completeness auto
termination
  by (relation "measure (\<lambda>(L, h, bytes). length bytes)") (auto simp: take_eq_Nil)

declare hash_chunks.simps [simp del]






section \<open>The check flow (agent.py, main with --check)\<close>






text \<open>
  How a run of the check ends: the comparison was made and reported (with
  \<^verbatim>\<open>is_secure\<close>), the baseline was missing or empty, or an exception reached the
  \<^verbatim>\<open>except Exception\<close> of \<^verbatim>\<open>main\<close>. \<^verbatim>\<open>sys.exit\<close> raises \<^verbatim>\<open>SystemExit\<close>, which that
  handler does not catch.
\<close>

datatype run = Completed bool | Rejected | Aborted error











section \<open>Example inputs\<close>

text \<open>
  A baseline and a rescan: \<^verbatim>\<open>a.txt\<close> has new content, \<^verbatim>\<open>b.txt\<close> is new, \<^verbatim>\<open>c.txt\<close> was
  touched (size and mtime differ, the hash does not), \<^verbatim>\<open>d.txt\<close> is gone.
\<close>

definition example_old :: snapshot where
  "example_old = fmap_of_list
     [(''a.txt'', file_record ''a.txt'' ''hashX'' 10 1),
      (''c.txt'', file_record ''c.txt'' ''hashZ'' 5 1),
      (''d.txt'', file_record ''d.txt'' ''hashW'' 1 1)]"

definition example_new :: snapshot where
  "example_new = fmap_of_list
     [(''a.txt'', file_record ''a.txt'' ''hashY'' 10 1),
      (''b.txt'', file_record ''b.txt'' ''hashV'' 2 2),
      (''c.txt'', file_record ''c.txt'' ''hashZ'' 7 2)]"

text \<open>Records without a \<^verbatim>\<open>hash\<close> entry, and one whose \<^verbatim>\<open>hash\<close> is \<^verbatim>\<open>null\<close>.\<close>

definition no_hash :: "string \<Rightarrow> pydict" where
  "no_hash p = fmap_of_list [(''path'', JStr p)]"

definition null_hash :: "string \<Rightarrow> pydict" where
  "null_hash p = fmap_of_list [(''path'', JStr p), (''hash'', JNull)]"

definition partial_old :: snapshot where
  "partial_old = fmap_of_list
     [(''a.txt'', no_hash ''a.txt''),
      (''b.txt'', no_hash ''b.txt''),
      (''c.txt'', file_record ''c.txt'' ''hashX'' 3 1)]"

definition partial_new :: snapshot where
  "partial_new = fmap_of_list
     [(''a.txt'', no_hash ''a.txt''),
      (''b.txt'', file_record ''b.txt'' ''hashY'' 4 2),
      (''c.txt'', no_hash ''c.txt'')]"

definition absent_old :: snapshot where
  "absent_old = fmap_of_list [(''a.txt'', no_hash ''a.txt'')]"

definition null_new :: snapshot where
  "null_new = fmap_of_list [(''a.txt'', null_hash ''a.txt'')]"

text \<open>
  Numbered notifications of regular files, the \<open>i\<close>-th with a path of \<open>i\<close> letters, and
  a notification of a directory.
\<close>

definition numbered :: "nat \<Rightarrow> notification" where
  "numbered i =
     \<lparr>kind = (if even i then Modified else Created),
      event = \<lparr>is_directory = False, src_path = replicate i (CHR ''a'')\<rparr>,
      clock = ''12:00:00''\<rparr>"

definition directory_notification :: notification where
  "directory_notification =
     \<lparr>kind = Modified,
      event = \<lparr>is_directory = True, src_path = ''test_data/sub''\<rparr>,
      clock = ''12:00:01''\<rparr>"

definition file_notification :: notification where
  "file_notification =
     \<lparr>kind = Deleted,
      event = \<lparr>is_directory = False, src_path = ''test_data/a.txt''\<rparr>,
      clock = ''12:00:02''\<rparr>"

definition one_entry_watcher :: watcher where
  "one_entry_watcher = dispatch (\<lambda>p. p) (numbered 1) init_watcher"

text \<open>
  Worlds: no file at all; a baseline file that is not JSON; a baseline of one entry, and
  the entries it was saved from.
\<close>

definition empty_world :: world where
  "empty_world = \<lparr>fs = (\<lambda>p. Absent), console = [], calls = []\<rparr>"

definition corrupt_world :: world where
  "corrupt_world =
     \<lparr>fs = (\<lambda>p. Absent)(''baseline.json'' := Regular (Invalid_json ''Expecting value'')),
      console = [], calls = []\<rparr>"










section \<open>Properties of the comparator\<close>

lemma py_eq_refl: "py_eq a a"
  by (cases a) (simp_all add: py_eq_def)

lemma py_eq_JNull: "py_eq JNull v \<longleftrightarrow> v = JNull"
  by (cases v) (auto simp: py_eq_def)

lemma py_eq_JNull_right: "py_eq v JNull \<longleftrightarrow> v = JNull"
  by (cases v) (auto simp: py_eq_def)

lemma modified_keys_filter:
  "set ks \<subseteq> fmdom' old \<inter> fmdom' new \<Longrightarrow>
   modified_keys old new ks =
     Inr (filter (\<lambda>k. py_ne (content_hash old k) (content_hash new k)) ks)"
proof (induction ks)
  case Nil
  show ?case by simp
next
  case (Cons k ks)
  from Cons.prems obtain a b where ab: "fmlookup old k = Some a" "fmlookup new k = Some b"
    by (auto simp: fmlookup_dom'_iff)
  from Cons.prems have "set ks \<subseteq> fmdom' old \<inter> fmdom' new" by simp
  with Cons.IH ab show ?case
    by (simp add: subscript_def content_hash_def)
qed

lemma visualize_integrity_check_eq:
  "visualize_integrity_check old new =
     Inr \<lparr>modified = sort (filter (\<lambda>k. py_ne (content_hash old k) (content_hash new k))
                              (sorted_list_of_set (fmdom' old \<inter> fmdom' new))),
          created = sorted_list_of_set (fmdom' new - fmdom' old),
          deleted = sorted_list_of_set (fmdom' old - fmdom' new)\<rparr>"
proof -
  have fin: "finite (fmdom' old \<inter> fmdom' new)" by simp
  have "set (sorted_list_of_set (fmdom' old \<inter> fmdom' new)) \<subseteq> fmdom' old \<inter> fmdom' new"
    using fin by simp
  from modified_keys_filter [OF this] show ?thesis
    by (simp add: visualize_integrity_check_def Let_def)
qed

text \<open>
  The order in which the comprehension meets the common keys does not show in the result:
  every enumeration of them gives the lists of the model.
\<close>

lemma modified_keys_any_order:
  assumes "distinct ks" "set ks = fmdom' old \<inter> fmdom' new"
  shows "\<exists>ms. modified_keys old new ks = Inr ms
           \<and> visualize_integrity_check old new =
               Inr \<lparr>modified = sort ms,
                    created = sorted_list_of_set (fmdom' new - fmdom' old),
                    deleted = sorted_list_of_set (fmdom' old - fmdom' new)\<rparr>"
proof -
  let ?P = "\<lambda>k. py_ne (content_hash old k) (content_hash new k)"
  let ?c = "sorted_list_of_set (fmdom' old \<inter> fmdom' new)"
  have ks: "modified_keys old new ks = Inr (filter ?P ks)"
    using assms(2) by (intro modified_keys_filter) simp
  have "sort (filter ?P ks) = sort (filter ?P ?c)"
  proof (rule sorted_distinct_set_unique)
    show "sorted (sort (filter ?P ks))" by simp
    show "distinct (sort (filter ?P ks))" using assms(1) by simp
    show "sorted (sort (filter ?P ?c))" by simp
    show "distinct (sort (filter ?P ?c))" by simp
    show "set (sort (filter ?P ks)) = set (sort (filter ?P ?c))" using assms(2) by simp
  qed
  with ks show ?thesis by (simp add: visualize_integrity_check_eq)
qed

lemma set_modified:
  "set (sort (filter (\<lambda>k. py_ne (content_hash old k) (content_hash new k))
                (sorted_list_of_set (fmdom' old \<inter> fmdom' new)))) =
   {p. p \<in> fmdom' old \<and> p \<in> fmdom' new \<and> py_ne (content_hash old p) (content_hash new p)}"
  by auto

text \<open>
  C1. Created is the set of paths of the new snapshot that the old one lacks, Deleted the
  set of paths of the old snapshot that the new one lacks, Modified the set of paths of
  both whose \<^verbatim>\<open>hash\<close> values differ. A path of both with equal hashes is in none of the
  three, whatever its other fields hold.
\<close>

theorem comparator_sets:
  "\<exists>d. visualize_integrity_check old new = Inr d
     \<and> set (created d) = fmdom' new - fmdom' old
     \<and> set (deleted d) = fmdom' old - fmdom' new
     \<and> set (modified d) =
         {p. p \<in> fmdom' old \<and> p \<in> fmdom' new \<and> py_ne (content_hash old p) (content_hash new p)}
     \<and> (\<forall>p. p \<in> fmdom' old \<and> p \<in> fmdom' new
              \<and> py_eq (content_hash old p) (content_hash new p)
            \<longrightarrow> p \<notin> set (modified d) \<and> p \<notin> set (created d) \<and> p \<notin> set (deleted d))"
  unfolding visualize_integrity_check_eq
  by (simp add: set_modified py_ne_def)

text \<open>The example rescan: one path in each class, and \<^verbatim>\<open>c.txt\<close>, touched but not rewritten, in none.\<close>

theorem comparator_sets_witness:
  "visualize_integrity_check example_old example_new =
         Inr \<lparr>modified = [''a.txt''], created = [''b.txt''], deleted = [''d.txt'']\<rparr>
   \<and> ''c.txt'' \<in> fmdom' example_old \<and> ''c.txt'' \<in> fmdom' example_new
   \<and> py_eq (content_hash example_old ''c.txt'') (content_hash example_new ''c.txt'')
   \<and> fmlookup example_old ''c.txt'' \<noteq> fmlookup example_new ''c.txt''
   \<and> ''c.txt'' \<notin> set [''a.txt''] \<union> set [''b.txt''] \<union> set [''d.txt'']
   \<and> set [''b.txt''] = fmdom' example_new - fmdom' example_old
   \<and> set [''d.txt''] = fmdom' example_old - fmdom' example_new"
proof -
  have run: "visualize_integrity_check example_old example_new =
         Inr \<lparr>modified = [''a.txt''], created = [''b.txt''], deleted = [''d.txt'']\<rparr>"
    by code_simp
  have pre: "''c.txt'' \<in> fmdom' example_old \<and> ''c.txt'' \<in> fmdom' example_new
     \<and> py_eq (content_hash example_old ''c.txt'') (content_hash example_new ''c.txt'')"
    by code_simp
  have diff: "fmlookup example_old ''c.txt'' \<noteq> fmlookup example_new ''c.txt''"
    by code_simp
  from comparator_sets [of example_old example_new] run pre diff show ?thesis
    by auto
qed

text \<open>
  C2. The three lists are pairwise disjoint, and every path of the old or the new snapshot
  is in exactly one of Modified, Deleted, Created and Unchanged.
\<close>

theorem comparator_partition:
  "\<exists>d. visualize_integrity_check old new = Inr d
     \<and> set (modified d) \<inter> set (created d) = {}
     \<and> set (modified d) \<inter> set (deleted d) = {}
     \<and> set (created d) \<inter> set (deleted d) = {}
     \<and> (\<forall>p \<in> fmdom' old \<union> fmdom' new.
           of_bool (p \<in> set (modified d)) + of_bool (p \<in> set (deleted d))
           + of_bool (p \<in> set (created d)) + of_bool (p \<in> unchanged old new) = (1::nat))"
  unfolding visualize_integrity_check_eq
  by (auto simp: set_modified py_ne_def unchanged_def)

text \<open>On the example rescan the four classes are one path each.\<close>

theorem comparator_partition_witness:
  "visualize_integrity_check example_old example_new =
         Inr \<lparr>modified = [''a.txt''], created = [''b.txt''], deleted = [''d.txt'']\<rparr>
   \<and> fmdom' example_old \<union> fmdom' example_new = {''a.txt'', ''b.txt'', ''c.txt'', ''d.txt''}
   \<and> unchanged example_old example_new = {''c.txt''}"
proof -
  have run: "visualize_integrity_check example_old example_new =
         Inr \<lparr>modified = [''a.txt''], created = [''b.txt''], deleted = [''d.txt'']\<rparr>"
    by code_simp
  have keys: "fmdom' example_old \<union> fmdom' example_new = {''a.txt'', ''b.txt'', ''c.txt'', ''d.txt''}"
    by code_simp
  have c: "''c.txt'' \<in> fmdom' example_old \<union> fmdom' example_new" using keys by simp
  have a: "''a.txt'' \<in> fmdom' example_old \<union> fmdom' example_new" using keys by simp
  have b: "''b.txt'' \<in> fmdom' example_old \<union> fmdom' example_new" using keys by simp
  have d: "''d.txt'' \<in> fmdom' example_old \<union> fmdom' example_new" using keys by simp
  from comparator_partition [of example_old example_new] run
  have all: "\<forall>p \<in> fmdom' example_old \<union> fmdom' example_new.
           of_bool (p \<in> set [''a.txt'']) + of_bool (p \<in> set [''d.txt''])
           + of_bool (p \<in> set [''b.txt'']) + of_bool (p \<in> unchanged example_old example_new) = (1::nat)"
    by auto
  have sub: "unchanged example_old example_new \<subseteq> fmdom' example_old \<union> fmdom' example_new"
    by (auto simp: unchanged_def)
  have "''c.txt'' \<in> unchanged example_old example_new"
    using bspec [OF all c] by (simp add: of_bool_def split: if_splits)
  moreover have "''a.txt'' \<notin> unchanged example_old example_new"
    using bspec [OF all a] by (simp add: of_bool_def split: if_splits)
  moreover have "''b.txt'' \<notin> unchanged example_old example_new"
    using bspec [OF all b] by (simp add: of_bool_def split: if_splits)
  moreover have "''d.txt'' \<notin> unchanged example_old example_new"
    using bspec [OF all d] by (simp add: of_bool_def split: if_splits)
  ultimately have "unchanged example_old example_new = {''c.txt''}"
    using sub keys by auto
  with run keys show ?thesis by simp
qed

text \<open>
  C10, amended. The comparison never raises, whatever entries the records have. A path of
  both snapshots whose records both lack \<^verbatim>\<open>hash\<close> is in none of the three lists. When
  exactly one record lacks it, the path is Modified if and only if the other record's
  \<^verbatim>\<open>hash\<close> is not \<^verbatim>\<open>None\<close>: a stored \<^verbatim>\<open>null\<close> equals the default of the lookup.
\<close>

theorem comparator_missing_hash:
  "\<exists>d. visualize_integrity_check old new = Inr d
     \<and> (\<forall>p a b. fmlookup old p = Some a \<and> fmlookup new p = Some b \<longrightarrow>
           (fmlookup a ''hash'' = None \<and> fmlookup b ''hash'' = None \<longrightarrow>
              p \<notin> set (modified d) \<and> p \<notin> set (created d) \<and> p \<notin> set (deleted d))
         \<and> (\<forall>v. fmlookup a ''hash'' = None \<and> fmlookup b ''hash'' = Some v \<longrightarrow>
              (p \<in> set (modified d) \<longleftrightarrow> v \<noteq> JNull))
         \<and> (\<forall>v. fmlookup a ''hash'' = Some v \<and> fmlookup b ''hash'' = None \<longrightarrow>
              (p \<in> set (modified d) \<longleftrightarrow> v \<noteq> JNull)))"
  unfolding visualize_integrity_check_eq
  by (auto simp: set_modified py_ne_def content_hash_def dict_get_def py_eq_JNull
        py_eq_JNull_right py_eq_refl fmlookup_dom'_iff)

text \<open>
  One record lacks \<^verbatim>\<open>hash\<close>, the other holds \<^verbatim>\<open>"hash": null\<close>: the path is not Modified.
\<close>

theorem comparator_missing_hash_counterexample:
  "fmlookup absent_old ''a.txt'' = Some (no_hash ''a.txt'')
   \<and> fmlookup (no_hash ''a.txt'') ''hash'' = None
   \<and> fmlookup null_new ''a.txt'' = Some (null_hash ''a.txt'')
   \<and> fmlookup (null_hash ''a.txt'') ''hash'' = Some JNull
   \<and> visualize_integrity_check absent_old null_new =
        Inr \<lparr>modified = [], created = [], deleted = []\<rparr>"
  by code_simp

text \<open>Records without a hash on one side, on the other and on both.\<close>

theorem comparator_missing_hash_witness:
  "visualize_integrity_check partial_old partial_new =
        Inr \<lparr>modified = [''b.txt'', ''c.txt''], created = [], deleted = []\<rparr>
   \<and> fmlookup partial_old ''a.txt'' = Some (no_hash ''a.txt'')
   \<and> fmlookup partial_new ''a.txt'' = Some (no_hash ''a.txt'')
   \<and> fmlookup (no_hash ''a.txt'') ''hash'' = None
   \<and> fmlookup partial_old ''b.txt'' = Some (no_hash ''b.txt'')
   \<and> fmlookup (no_hash ''b.txt'') ''hash'' = None
   \<and> fmlookup partial_new ''b.txt'' = Some (file_record ''b.txt'' ''hashY'' 4 2)
   \<and> fmlookup (file_record ''b.txt'' ''hashY'' 4 2) ''hash'' = Some (JStr ''hashY'')"
proof -
  have facts: "fmlookup partial_old ''a.txt'' = Some (no_hash ''a.txt'')
   \<and> fmlookup partial_new ''a.txt'' = Some (no_hash ''a.txt'')
   \<and> fmlookup (no_hash ''a.txt'') ''hash'' = None
   \<and> fmlookup partial_old ''b.txt'' = Some (no_hash ''b.txt'')
   \<and> fmlookup (no_hash ''b.txt'') ''hash'' = None
   \<and> fmlookup partial_new ''b.txt'' = Some (file_record ''b.txt'' ''hashY'' 4 2)
   \<and> fmlookup (file_record ''b.txt'' ''hashY'' 4 2) ''hash'' = Some (JStr ''hashY'')"
    by code_simp
  have run: "visualize_integrity_check partial_old partial_new =
        Inr \<lparr>modified = [''b.txt'', ''c.txt''], created = [], deleted = []\<rparr>"
    by code_simp
  from comparator_missing_hash [of partial_old partial_new] run facts show ?thesis
    by simp
qed

section \<open>Properties of the live aggregator\<close>

lemma log_event_events:
  "events (log_event name_of t ty p w) =
     (if length (events w) + 1 > max_events w
      then tl (events w @ [\<lparr>ev_time = t, ev_type = ty, ev_file = name_of p, ev_path = p\<rparr>])
      else events w @ [\<lparr>ev_time = t, ev_type = ty, ev_file = name_of p, ev_path = p\<rparr>])"
  by (simp add: log_event_def Let_def)

lemma log_event_max: "max_events (log_event name_of t ty p w) = max_events w"
  by (simp add: log_event_def Let_def)

lemma dispatch_file:
  "\<not> is_directory (event n) \<Longrightarrow>
   dispatch name_of n w = log_event name_of (clock n) (kind_name (kind n)) (src_path (event n)) w"
  by (cases "kind n") (simp_all add: dispatch_def on_modified_def on_created_def on_deleted_def)

lemma dispatch_directory: "is_directory (event n) \<Longrightarrow> dispatch name_of n w = w"
  by (cases "kind n") (simp_all add: dispatch_def on_modified_def on_created_def on_deleted_def)

lemma dispatch_max: "max_events (dispatch name_of n w) = max_events w"
  by (cases "is_directory (event n)") (simp_all add: dispatch_file dispatch_directory log_event_max)

lemma dispatch_events:
  "events (dispatch name_of n w) =
     (if is_file_notification n
      then (if length (events w) + 1 > max_events w
            then tl (events w @ [entry_of name_of n]) else events w @ [entry_of name_of n])
      else events w)"
  by (simp add: is_file_notification_def dispatch_file dispatch_directory log_event_events
        entry_of_def)

lemma deliver_max: "max_events (deliver name_of ns w) = max_events w"
  by (induction ns arbitrary: w) (simp_all add: dispatch_max)

lemma drop_step:
  assumes "length xs \<le> m"
  shows "(if length xs + 1 > m then tl (xs @ [e]) else xs @ [e]) =
         drop (length (xs @ [e]) - m) (xs @ [e])"
proof (cases "length xs + 1 > m")
  case True
  with assms have "length (xs @ [e]) - m = 1" by simp
  then have "drop (length (xs @ [e]) - m) (xs @ [e]) = tl (xs @ [e])"
    by (simp only: One_nat_def drop_Suc drop_0)
  with True show ?thesis by (simp only: if_True)
next
  case False
  then show ?thesis by simp
qed

lemma drop_append_le: "k \<le> length xs \<Longrightarrow> drop k xs @ ys = drop k (xs @ ys)"
  by simp

lemma deliver_events:
  "length (events w) \<le> max_events w \<Longrightarrow>
   events (deliver name_of ns w) =
     drop (length (events w @ map (entry_of name_of) (filter is_file_notification ns))
             - max_events w)
       (events w @ map (entry_of name_of) (filter is_file_notification ns))"
proof (induction ns arbitrary: w)
  case Nil
  then show ?case by simp
next
  case (Cons n ns)
  let ?w = "dispatch name_of n w"
  let ?rest = "map (entry_of name_of) (filter is_file_notification ns)"
  show ?case
  proof (cases "is_file_notification n")
    case False
    then have "events ?w = events w" by (simp add: dispatch_events)
    with Cons.IH [of ?w] Cons.prems False show ?thesis
      by (simp add: dispatch_max)
  next
    case True
    let ?app = "events w @ [entry_of name_of n]"
    let ?k = "length ?app - max_events w"
    have ev: "events ?w = drop ?k ?app"
      using True drop_step [OF Cons.prems, of "entry_of name_of n"]
      by (simp add: dispatch_events)
    have k: "?k \<le> 1" using Cons.prems by simp
    have inv: "length (events ?w) \<le> max_events ?w"
      using ev Cons.prems by (simp add: dispatch_max)
    have "events (deliver name_of ns ?w) =
            drop (length (events ?w @ ?rest) - max_events w) (events ?w @ ?rest)"
      using Cons.IH [OF inv] by (simp add: dispatch_max)
    also have "events ?w @ ?rest = drop ?k (?app @ ?rest)"
    proof -
      have "?k \<le> length ?app" by simp
      then have "drop ?k ?app @ ?rest = drop ?k (?app @ ?rest)" by (rule drop_append_le)
      with ev show ?thesis by (simp only:)
    qed
    also have "drop (length (drop ?k (?app @ ?rest)) - max_events w) (drop ?k (?app @ ?rest))
               = drop (length (?app @ ?rest) - max_events w) (?app @ ?rest)"
    proof -
      have "length (drop ?k (?app @ ?rest)) - max_events w + ?k
              = length (?app @ ?rest) - max_events w"
        using Cons.prems by auto
      then show ?thesis by (simp only: drop_drop)
    qed
    finally show ?thesis using True by simp
  qed
qed

text \<open>
  C3. Whatever notifications are fed to a fresh watcher, the log holds at most 50 entries
  after each of them, and what it holds are the last \<open>min(total, 50)\<close> entries appended, in
  arrival order: the oldest are evicted first. After 60 file notifications these are
  the entries of notifications 11 to 60.
\<close>

theorem live_log_bounded:
  "(let arrived = map (entry_of name_of) (filter is_file_notification ns);
        log = events (deliver name_of ns init_watcher)
    in length log \<le> 50
       \<and> length log = min (length arrived) 50
       \<and> log = drop (length arrived - 50) arrived
       \<and> (length arrived = 60 \<longrightarrow> length log = 50 \<and> log = drop 10 arrived))
   \<and> (\<forall>k. length (events (deliver name_of (take k ns) init_watcher)) \<le> 50)"
proof -
  have init: "length (events init_watcher) \<le> max_events init_watcher"
    by (simp add: init_watcher_def)
  have ev: "events (deliver name_of ms init_watcher) =
          drop (length (map (entry_of name_of) (filter is_file_notification ms)) - 50)
            (map (entry_of name_of) (filter is_file_notification ms))" for ms
    using deliver_events [OF init, of name_of ms] by (simp add: init_watcher_def)
  have "length (events (deliver name_of (take k ns) init_watcher)) \<le> 50" for k
    unfolding ev by simp
  then show ?thesis
    unfolding ev Let_def by auto
qed

text \<open>
  Scenario E: sixty numbered notifications.
\<close>

theorem live_log_bounded_witness:
  "length (filter is_file_notification (map numbered [1..<61])) = 60
   \<and> events (deliver (\<lambda>p. p) (map numbered [1..<61]) init_watcher) =
       map (entry_of (\<lambda>p. p) \<circ> numbered) [11..<61]
   \<and> length (events (deliver (\<lambda>p. p) (map numbered [1..<61]) init_watcher)) = 50"
proof -
  have n: "length (map (entry_of (\<lambda>p. p)) (filter is_file_notification (map numbered [1..<61]))) = 60"
    by code_simp
  have d: "drop 10 (map (entry_of (\<lambda>p. p)) (filter is_file_notification (map numbered [1..<61])))
           = map (entry_of (\<lambda>p. p) \<circ> numbered) [11..<61]"
    by code_simp
  from live_log_bounded [of "\<lambda>p. p" "map numbered [1..<61]"] n d show ?thesis
    by (simp add: Let_def)
qed

text \<open>
  C7. A notification of a directory leaves the watcher as it is. A notification of a
  regular file appends one entry, of the notification's kind and path, and evicts the
  oldest entry when the log was full.
\<close>

theorem dispatch_directory_or_file:
  "(is_directory (event n) \<longrightarrow> dispatch name_of n w = w)
   \<and> (\<not> is_directory (event n) \<longrightarrow>
        events (dispatch name_of n w) =
          (if length (events w) + 1 > max_events w
           then tl (events w @ [entry_of name_of n]) else events w @ [entry_of name_of n])
        \<and> ev_type (entry_of name_of n) = kind_name (kind n)
        \<and> ev_path (entry_of name_of n) = src_path (event n)
        \<and> max_events (dispatch name_of n w) = max_events w
        \<and> (0 < max_events w \<longrightarrow>
             events (dispatch name_of n w) \<noteq> []
             \<and> last (events (dispatch name_of n w)) = entry_of name_of n
             \<and> butlast (events (dispatch name_of n w)) =
                 (if length (events w) + 1 > max_events w then tl (events w) else events w)))"
proof -
  have "tl (events w @ [entry_of name_of n]) = tl (events w) @ [entry_of name_of n]"
    if "0 < max_events w" "length (events w) + 1 > max_events w"
    using that by (cases "events w") simp_all
  then show ?thesis
    by (auto simp: dispatch_directory dispatch_events is_file_notification_def dispatch_max
          entry_of_def)
qed

text \<open>
  A directory and a file notification on a log of one entry.
\<close>

theorem dispatch_directory_or_file_witness:
  "is_directory (event directory_notification)
   \<and> dispatch (\<lambda>p. p) directory_notification one_entry_watcher = one_entry_watcher
   \<and> \<not> is_directory (event file_notification)
   \<and> 0 < max_events one_entry_watcher
   \<and> events (dispatch (\<lambda>p. p) file_notification one_entry_watcher) =
       events one_entry_watcher @
         [\<lparr>ev_time = ''12:00:02'', ev_type = ''DELETED'',
           ev_file = ''test_data/a.txt'', ev_path = ''test_data/a.txt''\<rparr>]"
proof -
  have d: "is_directory (event directory_notification)" by code_simp
  have f: "\<not> is_directory (event file_notification)" by code_simp
  have m: "0 < max_events one_entry_watcher \<and> \<not> length (events one_entry_watcher) + 1 > max_events one_entry_watcher"
    by code_simp
  have e: "entry_of (\<lambda>p. p) file_notification =
      \<lparr>ev_time = ''12:00:02'', ev_type = ''DELETED'',
           ev_file = ''test_data/a.txt'', ev_path = ''test_data/a.txt''\<rparr>"
    by code_simp
  from dispatch_directory_or_file [of directory_notification "\<lambda>p. p" one_entry_watcher]
       dispatch_directory_or_file [of file_notification "\<lambda>p. p" one_entry_watcher]
       d f m e
  show ?thesis by simp
qed

section \<open>Properties of the baseline store\<close>







text \<open>
  C4. \<^verbatim>\<open>load_baseline\<close> on a path where no file exists returns the empty dict, raises
  nothing and prints nothing. On a file whose content is not JSON it raises: the parse
  error for a text that \<^verbatim>\<open>json.load\<close> rejects, the decoding error for bytes that are no
  text. It never returns the empty dict for such a file.
\<close>

theorem load_missing_or_corrupt:
  "(\<not> path_exists (fs w) p \<longrightarrow> load_baseline p w = (Inr (DictDoc fmempty), w))
   \<and> (fs w p = Regular (Invalid_json m) \<longrightarrow>
         load_baseline p w = (Inl (Failed_to_parse p), print [Corrupted_baseline m] w))
   \<and> (fs w p = Regular Invalid_text \<longrightarrow> load_baseline p w = (Inl UnicodeDecodeError, w))
   \<and> (\<forall>c. fs w p = Regular c \<and> (\<forall>d. c \<noteq> Json d) \<longrightarrow>
         (\<exists>e. fst (load_baseline p w) = Inl e)
         \<and> fst (load_baseline p w) \<noteq> Inr (DictDoc fmempty))"
proof -
  have "\<exists>e. fst (load_baseline p w) = Inl e" if "fs w p = Regular c" "\<forall>d. c \<noteq> Json d" for c
    using that by (cases c) (simp_all add: load_baseline_def path_exists_def open_read_def)
  then show ?thesis
    by (auto simp: load_baseline_def path_exists_def open_read_def)
qed

text \<open>
  A world without the baseline file, and one whose baseline file is not JSON.
\<close>

theorem load_missing_or_corrupt_witness:
  "\<not> path_exists (fs empty_world) ''baseline.json''
   \<and> load_baseline ''baseline.json'' empty_world = (Inr (DictDoc fmempty), empty_world)
   \<and> fs corrupt_world ''baseline.json'' = Regular (Invalid_json ''Expecting value'')
   \<and> fst (load_baseline ''baseline.json'' corrupt_world) = Inl (Failed_to_parse ''baseline.json'')"
proof -
  have a: "\<not> path_exists (fs empty_world) ''baseline.json''"
    by (simp add: empty_world_def path_exists_def)
  have b: "fs corrupt_world ''baseline.json'' = Regular (Invalid_json ''Expecting value'')"
    by (simp add: corrupt_world_def)
  from load_missing_or_corrupt [of empty_world "''baseline.json''"]
       load_missing_or_corrupt [of corrupt_world "''baseline.json''" "''Expecting value''"] a b
  show ?thesis by simp
qed





section \<open>Properties of the check flow\<close>



















section \<open>Properties of snapshot building\<close>



lemma hash_chunks_long:
  "length bytes > 65536 \<Longrightarrow>
   hash_chunks L h bytes = hash_chunks L (update L h (take 65536 bytes)) (drop 65536 bytes)"
  by (subst hash_chunks.simps) (auto simp: Let_def)







end
